theory Spec2Isabelle
  imports Complex_Main "HOL-Library.Word" "HOL-Library.Log_Nat"
begin

unbundle bit_operations_syntax

section \<open>JavaScript numbers and 32-bit operators\<close>

text \<open>
  The program computes on JavaScript numbers. A number value is modelled as a finite value
  (a rational; every finite double is one), \<open>NaN\<close>, or one of the two infinities. A bound
  passed to the sampler is a number, \<open>null\<close> or \<open>undefined\<close> (which selects the default
  parameter value).
\<close>

datatype jsnum = Fin rat | NaN | PosInf | NegInf

datatype jsval = Undefined | Null | Num jsnum

type_synonym byte = "8 word"

text \<open>
  Integer-valued numbers are carried as \<open>int\<close>. The result of an addition or subtraction of
  two such numbers is rounded to the nearest double (53-bit significand, ties to even):
  below \<open>2 ^ 53\<close> in magnitude nothing changes, above it the low bits are rounded off.
\<close>

definition round_double :: "int \<Rightarrow> int" where
  "round_double x =
     (let a = \<bar>x\<bar>;
          u = (2::int) ^ (nat (bitlen a) - 53);
          q = a div u;
          r = a mod u
      in sgn x * u * (if 2 * r < u \<or> (2 * r = u \<and> even q) then q else q + 1))"

definition js_add :: "int \<Rightarrow> int \<Rightarrow> int" where
  "js_add a b = round_double (a + b)"

definition js_sub :: "int \<Rightarrow> int \<Rightarrow> int" where
  "js_sub a b = round_double (a - b)"

text \<open>
  The bitwise operators convert their operands to 32 bits (\<open>word_of_int\<close> reduces modulo
  \<open>2 ^ 32\<close>), take the shift count modulo 32, and give a signed 32-bit result; only
  \<open>>>>\<close> gives an unsigned one.
\<close>

definition js_shl :: "int \<Rightarrow> nat \<Rightarrow> int" where
  "js_shl a k = sint (push_bit (k mod 32) (word_of_int a :: 32 word))"

definition js_or :: "int \<Rightarrow> int \<Rightarrow> int" where
  "js_or a b = sint ((word_of_int a :: 32 word) OR word_of_int b)"

definition js_and :: "int \<Rightarrow> int \<Rightarrow> int" where
  "js_and a b = sint ((word_of_int a :: 32 word) AND word_of_int b)"

definition js_ushr :: "int \<Rightarrow> nat \<Rightarrow> int" where
  "js_ushr a k = uint (drop_bit (k mod 32) (word_of_int a :: 32 word))"

section \<open>calculateParameters\<close>

record parameters =
  bitsNeeded :: nat
  bytesNeeded :: nat
  mask :: int

text \<open>
  The \<open>while (range > 0)\<close> loop of \<open>calculateParameters\<close>, with the three local variables
  as arguments.
\<close>

function calculateParameters_loop :: "int \<Rightarrow> nat \<Rightarrow> nat \<Rightarrow> int \<Rightarrow> parameters" where
  "calculateParameters_loop rng bits bytes m =
     (if rng > 0
      then calculateParameters_loop (js_ushr rng 1) (bits + 1)
             (if bits mod 8 = 0 then bytes + 1 else bytes) (js_or (js_shl m 1) 1)
      else \<lparr>bitsNeeded = bits, bytesNeeded = bytes, mask = m\<rparr>)"
  by pat_completeness auto
termination
proof (relation "measure (\<lambda>(rng, bits, bytes, m). nat rng)")
  fix rng :: int
  assume pos: "0 < rng"
  have "js_ushr rng 1 = (rng mod 2 ^ 32) div 2"
    by (simp add: js_ushr_def drop_bit_eq_div uint_div_distrib uint_word_of_int)
  moreover have "rng mod 2 ^ 32 \<le> rng"
    using pos by (simp add: zmod_le_nonneg_dividend)
  then have "(rng mod 2 ^ 32) div 2 \<le> rng div 2"
    by (rule zdiv_mono1) simp
  moreover have "rng div 2 < rng"
    using pos by simp
  ultimately have "js_ushr rng 1 < rng"
    by (simp only:)
  then show "\<And>bits bytes m. ((js_ushr rng 1, bits + 1, if bits mod 8 = 0 then bytes + 1 else bytes,
      js_or (js_shl m 1) 1), rng, bits, bytes, m) \<in> measure (\<lambda>(rng, bits, bytes, m). nat rng)"
    using pos by (simp add: nat_less_iff)
qed simp

declare calculateParameters_loop.simps [simp del]

definition calculateParameters :: "int \<Rightarrow> parameters" where
  "calculateParameters rng = calculateParameters_loop rng 0 0 1"

section \<open>Bounds and their validation\<close>

text \<open>
  A parameter left \<open>undefined\<close> takes its default (\<open>minimum = 1\<close>, \<open>maximum = 6\<close>).
  \<open>to_number\<close> is the conversion the arithmetic and comparison operators apply.
\<close>

definition with_default :: "int \<Rightarrow> jsval \<Rightarrow> jsval" where
  "with_default d v = (case v of Undefined \<Rightarrow> Num (Fin (of_int d)) | _ \<Rightarrow> v)"

fun to_number :: "jsval \<Rightarrow> jsnum" where
  "to_number Undefined = NaN"
| "to_number Null = Fin 0"
| "to_number (Num x) = x"

text \<open>\<open>v == null\<close> holds of \<open>null\<close> and \<open>undefined\<close> only.\<close>

fun eq_null :: "jsval \<Rightarrow> bool" where
  "eq_null (Num x) = False"
| "eq_null v = True"

text \<open>\<open>a < b\<close> on numbers: every comparison with \<open>NaN\<close> is false.\<close>

fun js_less :: "jsnum \<Rightarrow> jsnum \<Rightarrow> bool" where
  "js_less NaN b = False"
| "js_less a NaN = False"
| "js_less (Fin p) (Fin q) = (p < q)"
| "js_less (Fin p) PosInf = True"
| "js_less (Fin p) NegInf = False"
| "js_less PosInf b = False"
| "js_less NegInf NegInf = False"
| "js_less NegInf b = True"

text \<open>\<open>x % 1\<close>: the remainder has the sign of \<open>x\<close>; it is \<open>NaN\<close> when \<open>x\<close> is not finite.\<close>

fun js_mod1 :: "jsnum \<Rightarrow> jsnum" where
  "js_mod1 (Fin q) = Fin (q - of_int (if 0 \<le> q then \<lfloor>q\<rfloor> else \<lceil>q\<rceil>))"
| "js_mod1 x = NaN"

text \<open>The integer carried by an integer-valued number.\<close>

fun int_of :: "jsnum \<Rightarrow> int" where
  "int_of (Fin q) = \<lfloor>q\<rfloor>"
| "int_of x = 0"

text \<open>The integer-valued numbers, in which the statements below are phrased.\<close>

definition is_integer :: "jsnum \<Rightarrow> bool" where
  "is_integer x = (case x of Fin q \<Rightarrow> q = of_int \<lfloor>q\<rfloor> | _ \<Rightarrow> False)"

abbreviation JInt :: "int \<Rightarrow> jsval" where
  "JInt a \<equiv> Num (Fin (of_int a))"

datatype error =
    NoRandomSource
  | MinNotNumber
  | MaxNotNumber
  | MinNotInteger
  | MaxNotInteger
  | MinHigherThanMax
  | MinimumNotSafe
  | MaximumNotSafe
  | ExpectedGeneratorFunction
  | MinNotSafePositiveInteger
  | MaxNotSafePositiveInteger
  | SeedToShort
  | ExpectedUint8Array

text \<open>\<open>isSafeInteger\<close> of \<open>src/index.js\<close>, with its two hardcoded limits.\<close>

definition isSafeInteger :: "jsnum \<Rightarrow> bool" where
  "isSafeInteger n =
     (\<not> (js_less n (Fin (- 9007199254740991)) \<or> js_less (Fin 9007199254740991) n))"

text \<open>The built-in \<open>Number.isSafeInteger\<close>, which the later listing calls.\<close>

fun Number_isSafeInteger :: "jsval \<Rightarrow> bool" where
  "Number_isSafeInteger (Num (Fin q)) = (q = of_int \<lfloor>q\<rfloor> \<and> \<bar>q\<bar> \<le> 9007199254740991)"
| "Number_isSafeInteger v = False"

text \<open>
  Lines 11 to 17 of \<open>src/index.js\<close>: the checks on the two bounds, in the order of the
  source. \<open>None\<close> means that no check throws.
\<close>

definition check_bounds :: "jsval \<Rightarrow> jsval \<Rightarrow> error option" where
  "check_bounds minimum maximum =
     (if eq_null minimum then Some MinNotNumber
      else if eq_null maximum then Some MaxNotNumber
      else if js_mod1 (to_number minimum) \<noteq> Fin 0 then Some MinNotInteger
      else if js_mod1 (to_number maximum) \<noteq> Fin 0 then Some MaxNotInteger
      else if \<not> js_less (to_number minimum) (to_number maximum) then Some MinHigherThanMax
      else if \<not> isSafeInteger (to_number minimum) then Some MinimumNotSafe
      else if \<not> isSafeInteger (to_number maximum) then Some MaximumNotSafe
      else None)"

text \<open>
  The three checks on the bounds that open \<open>randomNumber\<close> and \<open>randomSeedNumber\<close> in the
  later listing of the module (\<open>src/README.md\<close>, lines 144 to 146 and 172 to 174).
\<close>

definition check_bounds_positive :: "jsval \<Rightarrow> jsval \<Rightarrow> error option" where
  "check_bounds_positive minimum maximum =
     (if \<not> Number_isSafeInteger minimum \<or> js_less (to_number minimum) (Fin 0)
      then Some MinNotSafePositiveInteger
      else if \<not> Number_isSafeInteger maximum \<or> js_less (to_number maximum) (Fin 0)
      then Some MaxNotSafePositiveInteger
      else if \<not> js_less (to_number minimum) (to_number maximum) then Some MinHigherThanMax
      else None)"

section \<open>Reducing bytes to an integer\<close>

text \<open>
  \<open>bytes[i]\<close> on a \<open>Uint8Array\<close>: the element, or \<open>undefined\<close> (here \<open>None\<close>) beyond its
  end. A bitwise operator reads \<open>undefined\<close> as 0.
\<close>

definition index_u8 :: "byte list \<Rightarrow> nat \<Rightarrow> byte option" where
  "index_u8 bytes i = (if i < length bytes then Some (bytes ! i) else None)"

definition to_int32_operand :: "byte option \<Rightarrow> int" where
  "to_int32_operand v = (case v of None \<Rightarrow> 0 | Some b \<Rightarrow> uint b)"

text \<open>
  The loop \<open>for (let i = 0; i < bytesNeeded; i++) randomValue |= (bytes[i] << (8 * i))\<close>,
  which both listings contain.
\<close>

function reduceBytes_loop :: "nat \<Rightarrow> nat \<Rightarrow> byte list \<Rightarrow> int \<Rightarrow> int" where
  "reduceBytes_loop i n bytes randomValue =
     (if i < n
      then reduceBytes_loop (i + 1) n bytes
             (js_or randomValue (js_shl (to_int32_operand (index_u8 bytes i)) (8 * i)))
      else randomValue)"
  by pat_completeness auto
termination
  by (relation "measure (\<lambda>(i, n, bytes, randomValue). n - i)") auto

declare reduceBytes_loop.simps [simp del]

definition reduceBytes :: "nat \<Rightarrow> byte list \<Rightarrow> int" where
  "reduceBytes n bytes = reduceBytes_loop 0 n bytes 0"

text \<open>
  The rest of an iteration: mask the value, and accept it when it is at most \<open>range\<close>.
  \<open>None\<close> is a rejected draw.
\<close>

definition maskAndCheck :: "int \<Rightarrow> int \<Rightarrow> parameters \<Rightarrow> byte list \<Rightarrow> int option" where
  "maskAndCheck minimum rng ps bytes =
     (let randomValue = js_and (reduceBytes (bytesNeeded ps) bytes) (mask ps)
      in if randomValue \<le> rng then Some (js_add minimum randomValue) else None)"

section \<open>randomNumber of src/index.js\<close>

text \<open>
  The byte source is a function from the number of the call (0 for the first) and the
  requested count to the bytes it delivers; the sampler counts its calls, so that its
  result says how many times bytes were requested. The result is \<open>None\<close> when the loop
  never ends.
\<close>

type_synonym generator = "nat \<Rightarrow> nat \<Rightarrow> byte list"

partial_function (option) randomNumber_loop ::
  "generator \<Rightarrow> int \<Rightarrow> int \<Rightarrow> parameters \<Rightarrow> nat \<Rightarrow> ((error + int) \<times> nat) option" where
  "randomNumber_loop generator minimum rng ps calls =
     (let bytes = generator calls (bytesNeeded ps)
      in case maskAndCheck minimum rng ps bytes of
           Some v \<Rightarrow> Some (Inr v, calls + 1)
         | None \<Rightarrow> randomNumber_loop generator minimum rng ps (calls + 1))"

text \<open>The generator argument is \<open>None\<close> when the value passed is not a function.\<close>

definition randomNumber ::
  "jsval \<Rightarrow> jsval \<Rightarrow> generator option \<Rightarrow> ((error + int) \<times> nat) option" where
  "randomNumber minimum0 maximum0 generator0 =
     (let minimum = with_default 1 minimum0; maximum = with_default 6 maximum0
      in case generator0 of
           None \<Rightarrow> Some (Inl NoRandomSource, 0)
         | Some generator \<Rightarrow>
             (case check_bounds minimum maximum of
                Some e \<Rightarrow> Some (Inl e, 0)
              | None \<Rightarrow>
                  (let rng = js_sub (int_of (to_number maximum)) (int_of (to_number minimum))
                   in randomNumber_loop generator (int_of (to_number minimum)) rng
                        (calculateParameters rng) 0)))"

section \<open>The later listing: toU8, randomSeedNumber, randomNumber\<close>

text \<open>
  A seed is any value \<open>toU8\<close> distinguishes: an \<open>ArrayBuffer\<close>, a \<open>Uint8Array\<close> (a Node
  \<open>Buffer\<close> is one), another object with a \<open>buffer\<close> property, of which a \<open>Uint8Array\<close>
  is made from \<open>byteOffset\<close> and \<open>byteLength\<close>, or anything else. The last two carry
  their \<open>length\<close> property, \<open>None\<close> when it is not a number; an \<open>ArrayBuffer\<close> has none.
\<close>

datatype buffer =
    ArrayBuffer "byte list"
  | Uint8Array "byte list"
  | BufferView "nat option" "byte list"
  | NotBuffer "nat option"

fun toU8 :: "buffer \<Rightarrow> error + byte list" where
  "toU8 (ArrayBuffer bs) = Inr bs"
| "toU8 (Uint8Array bs) = Inr bs"
| "toU8 (BufferView l bs) = Inr bs"
| "toU8 (NotBuffer l) = Inl ExpectedUint8Array"

fun seed_length :: "buffer \<Rightarrow> nat option" where
  "seed_length (ArrayBuffer bs) = None"
| "seed_length (Uint8Array bs) = Some (length bs)"
| "seed_length (BufferView l bs) = l"
| "seed_length (NotBuffer l) = l"

text \<open>\<open>seed.length < bytesNeeded\<close>: false when \<open>seed.length\<close> is \<open>undefined\<close>.\<close>

definition length_less :: "nat option \<Rightarrow> nat \<Rightarrow> bool" where
  "length_less l n = (case l of None \<Rightarrow> False | Some k \<Rightarrow> k < n)"

definition randomSeedNumber :: "buffer \<Rightarrow> jsval \<Rightarrow> jsval \<Rightarrow> error + int" where
  "randomSeedNumber seed minimum0 maximum0 =
     (let minimum = with_default 1 minimum0; maximum = with_default 6 maximum0
      in case check_bounds_positive minimum maximum of
           Some e \<Rightarrow> Inl e
         | None \<Rightarrow>
             (let rng = js_sub (int_of (to_number maximum)) (int_of (to_number minimum));
                  ps = calculateParameters rng
              in if length_less (seed_length seed) (bytesNeeded ps) then Inl SeedToShort
                 else case toU8 seed of
                        Inl e \<Rightarrow> Inl e
                      | Inr bytes \<Rightarrow>
                          (case maskAndCheck (int_of (to_number minimum)) rng ps bytes of
                             Some v \<Rightarrow> Inr v
                           | None \<Rightarrow> Inr (- 1))))"

type_synonym buffer_generator = "nat \<Rightarrow> nat \<Rightarrow> buffer"

partial_function (option) randomNumber_seed_loop ::
  "buffer_generator \<Rightarrow> jsval \<Rightarrow> jsval \<Rightarrow> nat \<Rightarrow> nat \<Rightarrow> ((error + int) \<times> nat) option" where
  "randomNumber_seed_loop generator minimum maximum n calls =
     (let bytes = generator calls n
      in case randomSeedNumber bytes minimum maximum of
           Inl e \<Rightarrow> Some (Inl e, calls + 1)
         | Inr v \<Rightarrow>
             if v = - 1 then randomNumber_seed_loop generator minimum maximum n (calls + 1)
             else Some (Inr v, calls + 1))"

definition randomNumber_seed ::
  "jsval \<Rightarrow> jsval \<Rightarrow> buffer_generator option \<Rightarrow> ((error + int) \<times> nat) option" where
  "randomNumber_seed minimum0 maximum0 generator0 =
     (let minimum = with_default 1 minimum0; maximum = with_default 6 maximum0
      in case generator0 of
           None \<Rightarrow> Some (Inl ExpectedGeneratorFunction, 0)
         | Some generator \<Rightarrow>
             (case check_bounds_positive minimum maximum of
                Some e \<Rightarrow> Some (Inl e, 0)
              | None \<Rightarrow>
                  (let rng = js_sub (int_of (to_number maximum)) (int_of (to_number minimum))
                   in randomNumber_seed_loop generator minimum maximum
                        (bytesNeeded (calculateParameters rng)) 0)))"

section \<open>Predicates of the statements\<close>

text \<open>The safe-integer range, and the numbers the later listing accepts as bounds.\<close>

definition in_safe_range :: "int \<Rightarrow> bool" where
  "in_safe_range a \<longleftrightarrow> - 9007199254740991 \<le> a \<and> a \<le> 9007199254740991"

definition nonneg_safe_integer :: "jsnum \<Rightarrow> bool" where
  "nonneg_safe_integer x =
     (case x of Fin q \<Rightarrow> q = of_int \<lfloor>q\<rfloor> \<and> 0 \<le> q \<and> q \<le> 9007199254740991 | _ \<Rightarrow> False)"

section \<open>The composition the specification describes\<close>

text \<open>
  Written from the specification, for comparison with \<open>reduceBytes\<close>: the unsigned
  integer in which byte \<open>i\<close> occupies bits \<open>8i\<close> to \<open>8i + 7\<close>, the first byte lowest.
\<close>

fun spec_little_endian :: "byte list \<Rightarrow> int" where
  "spec_little_endian [] = 0"
| "spec_little_endian (b # bs) = uint b + 256 * spec_little_endian bs"

text \<open>
  Written from the specification, for comparison with \<open>randomSeedNumber\<close>: the least count
  of bits \<open>k\<close> with \<open>2 ^ k - 1 >= size\<close> (the length of the size in bits, see
  \<open>spec_bitsNeeded_least\<close>), the bytes that hold them, the mask \<open>2 ^ k - 1\<close>, and the
  one-shot extraction from the first \<open>bytesNeeded\<close> bytes of a seed.
\<close>

definition spec_bitsNeeded :: "int \<Rightarrow> nat" where
  "spec_bitsNeeded sz = nat (bitlen sz)"

definition spec_bytesNeeded :: "int \<Rightarrow> nat" where
  "spec_bytesNeeded sz = (spec_bitsNeeded sz + 7) div 8"

definition spec_mask :: "int \<Rightarrow> int" where
  "spec_mask sz = 2 ^ spec_bitsNeeded sz - 1"

definition spec_randomSeedNumber :: "byte list \<Rightarrow> int \<Rightarrow> int \<Rightarrow> int" where
  "spec_randomSeedNumber seed minimum maximum =
     (let sz = maximum - minimum;
          maskedValue = spec_little_endian (take (spec_bytesNeeded sz) seed) AND spec_mask sz
      in if maskedValue \<le> sz then minimum + maskedValue else - 1)"

section \<open>Arithmetic and evaluation lemmas\<close>

lemma js_ushr_Suc_0: "js_ushr a (Suc 0) = (a mod 2 ^ 32) div 2"
  by (simp add: js_ushr_def drop_bit_eq_div uint_div_distrib uint_word_of_int)

lemma calculateParameters_loop_step:
  "0 < rng \<Longrightarrow> calculateParameters_loop rng bits bytes m =
     calculateParameters_loop ((rng mod 2 ^ 32) div 2) (Suc bits)
       (if bits mod 8 = 0 then Suc bytes else bytes) (js_or (js_shl m 1) 1)"
  by (subst calculateParameters_loop.simps) (simp add: js_ushr_Suc_0)

lemma calculateParameters_loop_stop:
  "rng \<le> 0 \<Longrightarrow> calculateParameters_loop rng bits bytes m =
     \<lparr>bitsNeeded = bits, bytesNeeded = bytes, mask = m\<rparr>"
  by (subst calculateParameters_loop.simps) simp

lemmas calculateParameters_eval =
  calculateParameters_def calculateParameters_loop_step calculateParameters_loop_stop
  js_or_def js_shl_def

lemma reduceBytes_loop_step:
  "i < n \<Longrightarrow> reduceBytes_loop i n bytes v =
     reduceBytes_loop (Suc i) n bytes
       (js_or v (js_shl (to_int32_operand (index_u8 bytes i)) (8 * i)))"
  by (subst reduceBytes_loop.simps) simp

lemma reduceBytes_loop_stop: "n \<le> i \<Longrightarrow> reduceBytes_loop i n bytes v = v"
  by (subst reduceBytes_loop.simps) simp

lemmas reduceBytes_eval =
  reduceBytes_def reduceBytes_loop_step reduceBytes_loop_stop index_u8_def
  to_int32_operand_def js_or_def js_shl_def

lemma round_double_exact: "\<bar>x\<bar> < 2 ^ 53 \<Longrightarrow> round_double x = x"
proof -
  assume small: "\<bar>x\<bar> < 2 ^ 53"
  then have "bitlen \<bar>x\<bar> \<le> 53"
    by (simp add: bitlen_le_iff_power)
  then have "nat (bitlen \<bar>x\<bar>) - 53 = 0"
    by simp
  then show ?thesis
    by (simp add: round_double_def Let_def mult_sgn_abs)
qed

lemma js_mod1_zero_iff: "js_mod1 x = Fin 0 \<longleftrightarrow> is_integer x"
proof (cases x)
  case (Fin q)
  have "q = of_int \<lceil>q\<rceil> \<longleftrightarrow> q = of_int \<lfloor>q\<rfloor>"
    by (metis ceiling_of_int floor_of_int)
  then show ?thesis
    using Fin by (auto simp: is_integer_def)
qed (simp_all add: is_integer_def)

lemma is_integer_of_int: "is_integer (Fin (of_int a))"
  by (simp add: is_integer_def)

lemma check_bounds_int:
  "check_bounds (JInt a) (JInt b) =
     (if \<not> a < b then Some MinHigherThanMax
      else if a < - 9007199254740991 \<or> 9007199254740991 < a then Some MinimumNotSafe
      else if b < - 9007199254740991 \<or> 9007199254740991 < b then Some MaximumNotSafe
      else None)"
  by (simp add: check_bounds_def isSafeInteger_def js_mod1_zero_iff is_integer_of_int)

lemma Number_isSafeInteger_int:
  "Number_isSafeInteger (JInt a) \<longleftrightarrow> \<bar>a\<bar> \<le> 9007199254740991"
proof -
  have "\<bar>rat_of_int a\<bar> \<le> 9007199254740991 \<longleftrightarrow> \<bar>a\<bar> \<le> 9007199254740991"
    by linarith
  then show ?thesis by simp
qed

lemma check_bounds_positive_int:
  "check_bounds_positive (JInt a) (JInt b) =
     (if a < 0 \<or> 9007199254740991 < a then Some MinNotSafePositiveInteger
      else if b < 0 \<or> 9007199254740991 < b then Some MaxNotSafePositiveInteger
      else if \<not> a < b then Some MinHigherThanMax
      else None)"
  by (auto simp add: check_bounds_positive_def Number_isSafeInteger_int)

lemma with_default_Num: "with_default d (Num x) = Num x"
  by (simp add: with_default_def)

lemma js_and_lower: "- 2147483648 \<le> js_and x y"
  using sint_ge [of "(word_of_int x :: 32 word) AND word_of_int y"]
  by (simp add: js_and_def)

lemma js_sub_safe:
  "0 \<le> a \<Longrightarrow> a < b \<Longrightarrow> b \<le> 9007199254740991 \<Longrightarrow> js_sub b a = b - a"
  by (simp add: js_sub_def round_double_exact)

lemma maskAndCheck_safe:
  assumes "0 \<le> a" "a < b" "b \<le> 9007199254740991"
  shows "maskAndCheck a (b - a) ps bytes =
     (let maskedValue = js_and (reduceBytes (bytesNeeded ps) bytes) (mask ps)
      in if maskedValue \<le> b - a then Some (a + maskedValue) else None)"
proof -
  let ?v = "js_and (reduceBytes (bytesNeeded ps) bytes) (mask ps)"
  have "js_add a ?v = a + ?v" if "?v \<le> b - a"
  proof -
    have "- 2147483648 \<le> ?v" by (rule js_and_lower)
    with that assms have "\<bar>a + ?v\<bar> < 2 ^ 53" by simp
    then show ?thesis by (simp add: js_add_def round_double_exact)
  qed
  then show ?thesis
    by (simp add: maskAndCheck_def Let_def)
qed

lemma randomSeedNumber_safe:
  assumes "0 \<le> a" "a < b" "b \<le> 9007199254740991"
  shows "randomSeedNumber seed (JInt a) (JInt b) =
     (let ps = calculateParameters (b - a)
      in if length_less (seed_length seed) (bytesNeeded ps) then Inl SeedToShort
         else case toU8 seed of
                Inl e \<Rightarrow> Inl e
              | Inr bytes \<Rightarrow>
                  (case maskAndCheck a (b - a) ps bytes of
                     Some v \<Rightarrow> Inr v
                   | None \<Rightarrow> Inr (- 1)))"
  using assms
  by (simp add: randomSeedNumber_def with_default_Num check_bounds_positive_int js_sub_safe Let_def
      split: sum.split)

lemma calculateParameters_60: "calculateParameters 60 = \<lparr>bitsNeeded = 6, bytesNeeded = 1, mask = 127\<rparr>"
  by (simp add: calculateParameters_eval)

lemma index_u8_take: "j < n \<Longrightarrow> index_u8 (take n bs) j = index_u8 bs j"
  by (simp add: index_u8_def)

lemma reduceBytes_loop_agree:
  "(\<And>j. i \<le> j \<Longrightarrow> j < n \<Longrightarrow> index_u8 bs j = index_u8 cs j) \<Longrightarrow>
   reduceBytes_loop i n bs v = reduceBytes_loop i n cs v"
proof (induction i n bs v rule: reduceBytes_loop.induct)
  case (1 i n bytes randomValue)
  show ?case
  proof (cases "i < n")
    case True
    have here: "index_u8 bytes i = index_u8 cs i"
      using True by (simp add: "1.prems")
    have "reduceBytes_loop (i + 1) n bytes
        (js_or randomValue (js_shl (to_int32_operand (index_u8 bytes i)) (8 * i))) =
      reduceBytes_loop (i + 1) n cs
        (js_or randomValue (js_shl (to_int32_operand (index_u8 bytes i)) (8 * i)))"
      using True by (intro "1.IH") (simp_all add: "1.prems")
    then show ?thesis
      using True here by (simp add: reduceBytes_loop_step)
  next
    case False
    then show ?thesis by (simp add: reduceBytes_loop_stop)
  qed
qed

lemma reduceBytes_take: "reduceBytes n (take n bs) = reduceBytes n bs"
  unfolding reduceBytes_def
  by (rule reduceBytes_loop_agree) (simp add: index_u8_take)

lemma reduceBytes_prefix:
  "take n bs = take n cs \<Longrightarrow> reduceBytes n bs = reduceBytes n cs"
  by (metis reduceBytes_take)


lemma check_bounds_num:
  "check_bounds (Num x) (Num y) =
     (if \<not> is_integer x then Some MinNotInteger
      else if \<not> is_integer y then Some MaxNotInteger
      else if \<not> js_less x y then Some MinHigherThanMax
      else if \<not> isSafeInteger x then Some MinimumNotSafe
      else if \<not> isSafeInteger y then Some MaximumNotSafe
      else None)"
  by (simp add: check_bounds_def js_mod1_zero_iff)

lemma nonneg_safe_integer_iff:
  "nonneg_safe_integer x \<longleftrightarrow> Number_isSafeInteger (Num x) \<and> \<not> js_less x (Fin 0)"
  by (cases x) (auto simp: nonneg_safe_integer_def)

lemma check_bounds_positive_num:
  "\<not> (nonneg_safe_integer x \<and> nonneg_safe_integer y) \<Longrightarrow>
   check_bounds_positive (Num x) (Num y) =
     Some (if nonneg_safe_integer x then MaxNotSafePositiveInteger else MinNotSafePositiveInteger)"
  by (auto simp: check_bounds_positive_def nonneg_safe_integer_iff)

text \<open>
  What \<open>calculateParameters\<close> does compute: the byte count is the bit count divided by 8
  and rounded up, for every size; and below \<open>2 ^ 32\<close> the bit count is the length of the
  size in bits.
\<close>

lemma bytes_step:
  assumes "bytes = (bits + 7) div 8"
  shows "(if bits mod 8 = 0 then bytes + 1 else bytes) = (bits + 1 + 7) div (8::nat)"
proof -
  define k where "k = bits div 8"
  define r where "r = bits mod 8"
  have bits: "bits = r + k * 8" and r: "r < 8"
    by (simp_all add: k_def r_def)
  have up: "(bits + 1 + 7) div 8 = k + 1"
    using r by (simp add: bits)
  show ?thesis
  proof (cases "r = 0")
    case True
    then have "bytes = k" using assms by (simp add: bits)
    with True up show ?thesis by (simp add: r_def)
  next
    case False
    with r have "(r + 7) div 8 = 1"
      by (simp add: div_nat_eqI)
    then have "bytes = k + 1" using assms by (simp add: bits)
    with False up show ?thesis by (simp add: r_def)
  qed
qed

lemma calculateParameters_loop_unfold:
  "0 < rng \<Longrightarrow> calculateParameters_loop rng bits bytes m =
     calculateParameters_loop (js_ushr rng 1) (bits + 1)
       (if bits mod 8 = 0 then bytes + 1 else bytes) (js_or (js_shl m 1) 1)"
  by (subst calculateParameters_loop.simps) (simp only: if_True)

lemma calculateParameters_loop_bytes:
  "bytes = (bits + 7) div 8 \<Longrightarrow>
   bytesNeeded (calculateParameters_loop rng bits bytes m) =
     (bitsNeeded (calculateParameters_loop rng bits bytes m) + 7) div 8"
proof (induction rng bits bytes m rule: calculateParameters_loop.induct)
  case (1 rng bits bytes m)
  show ?case
  proof (cases "0 < rng")
    case True
    have "(if bits mod 8 = 0 then bytes + 1 else bytes) = (bits + 1 + 7) div 8"
      using "1.prems" by (rule bytes_step)
    from "1.IH" [OF True this] show ?thesis
      by (simp only: calculateParameters_loop_unfold [OF True])
  next
    case False
    with "1.prems" show ?thesis
      by (simp add: calculateParameters_loop_stop)
  qed
qed

lemma calculateParameters_bytesNeeded:
  "bytesNeeded (calculateParameters sz) = (bitsNeeded (calculateParameters sz) + 7) div 8"
  unfolding calculateParameters_def by (rule calculateParameters_loop_bytes) simp

lemma calculateParameters_loop_bits:
  "rng < 2 ^ 32 \<Longrightarrow>
   bitsNeeded (calculateParameters_loop rng bits bytes m) = bits + nat (bitlen rng)"
proof (induction rng bits bytes m rule: calculateParameters_loop.induct)
  case (1 rng bits bytes m)
  show ?case
  proof (cases "0 < rng")
    case True
    with "1.prems" have half: "js_ushr rng 1 = rng div 2"
      using js_ushr_Suc_0 [of rng] by simp
    have "js_ushr rng 1 < 2 ^ 32"
      using "1.prems" True half by simp
    from "1.IH" [OF True this]
    have "bitsNeeded (calculateParameters_loop rng bits bytes m) =
        bits + 1 + nat (bitlen (rng div 2))"
      by (simp only: calculateParameters_loop_unfold [OF True] half)
    moreover have "bitlen rng = bitlen (rng div 2) + 1"
      using True by (subst compute_bitlen) simp
    moreover have "0 \<le> bitlen (rng div 2)"
      by (rule bitlen_nonneg)
    ultimately show ?thesis
      by (simp add: nat_add_distrib)
  next
    case False
    then have "bitlen rng = 0"
      by (simp add: bitlen_eq_zero_iff)
    with False show ?thesis
      by (simp add: calculateParameters_loop_stop)
  qed
qed

lemma calculateParameters_bitsNeeded:
  "sz < 2 ^ 32 \<Longrightarrow> bitsNeeded (calculateParameters sz) = nat (bitlen sz)"
  by (simp add: calculateParameters_def calculateParameters_loop_bits)

lemma spec_bitsNeeded_least: "sz \<le> 2 ^ k - 1 \<longleftrightarrow> spec_bitsNeeded sz \<le> k"
  using bitlen_le_iff_power [of sz "int k"] by (auto simp: spec_bitsNeeded_def)

lemma calculateParameters_2_30:
  "calculateParameters 1073741824 = \<lparr>bitsNeeded = 31, bytesNeeded = 4, mask = - 1\<rparr>"
  by (simp add: calculateParameters_eval)


section \<open>Values outside the requested range\<close>

text \<open>
  C1. The claim: for safe integers with \<open>maximum > minimum\<close> and a source that delivers the
  requested bytes, \<open>randomNumber\<close> returns a value between \<open>minimum\<close> and \<open>maximum\<close>.
  The code at \<open>minimum = 0\<close>, \<open>maximum = 2 ^ 30\<close> and the four bytes \<open>0, 0, 0, 128\<close>:
  \<open>calculateParameters\<close> gives four bytes and the mask \<open>-1\<close>, the bytes reduce to the signed
  32-bit value \<open>- 2 ^ 31\<close>, which is at most the range and is returned added to the minimum.
  Both listings of \<open>randomNumber\<close> return \<open>-2147483648\<close>, below the minimum, after one call
  of the source.
\<close>

theorem randomNumber_below_minimum:
  "randomNumber (Num (Fin 0)) (Num (Fin 1073741824)) (Some (\<lambda>k n. [0, 0, 0, 128])) =
     Some (Inr (- 2147483648), 1)
   \<and> randomNumber_seed (Num (Fin 0)) (Num (Fin 1073741824))
        (Some (\<lambda>k n. Uint8Array [0, 0, 0, 128])) =
     Some (Inr (- 2147483648), 1)"
proof -
  let ?ps = "\<lparr>bitsNeeded = 31, bytesNeeded = 4, mask = - 1\<rparr>"
  have cb: "check_bounds (Num (Fin 0)) (Num (Fin 1073741824)) = None"
    using check_bounds_int [of 0 1073741824] by simp
  have cbp: "check_bounds_positive (Num (Fin 0)) (Num (Fin 1073741824)) = None"
    using check_bounds_positive_int [of 0 1073741824] by simp
  have rng: "js_sub 1073741824 0 = 1073741824"
    by (simp add: js_sub_def round_double_exact)
  have ps: "calculateParameters 1073741824 = ?ps"
    by (simp add: calculateParameters_eval)
  have rv: "reduceBytes 4 [0, 0, 0, 128] = - 2147483648"
    by (simp add: reduceBytes_eval)
  have mc: "maskAndCheck 0 1073741824 ?ps [0, 0, 0, 128] = Some (- 2147483648)"
    by (simp add: maskAndCheck_def rv js_and_def js_add_def round_double_exact)
  have "randomNumber_loop (\<lambda>k n. [0, 0, 0, 128]) 0 1073741824 ?ps 0 =
      Some (Inr (- 2147483648), 1)"
    by (subst randomNumber_loop.simps) (simp add: mc)
  then have first: "randomNumber (Num (Fin 0)) (Num (Fin 1073741824))
      (Some (\<lambda>k n. [0, 0, 0, 128])) = Some (Inr (- 2147483648), 1)"
    by (simp add: randomNumber_def with_default_Num cb rng ps)
  have seed: "randomSeedNumber (Uint8Array [0, 0, 0, 128]) (Num (Fin 0)) (Num (Fin 1073741824)) =
      Inr (- 2147483648)"
    by (simp add: randomSeedNumber_def with_default_Num cbp rng ps mc length_less_def)
  have "randomNumber_seed_loop (\<lambda>k n. Uint8Array [0, 0, 0, 128]) (Num (Fin 0))
      (Num (Fin 1073741824)) 4 0 = Some (Inr (- 2147483648), 1)"
    by (subst randomNumber_seed_loop.simps) (simp add: seed)
  then have "randomNumber_seed (Num (Fin 0)) (Num (Fin 1073741824))
      (Some (\<lambda>k n. Uint8Array [0, 0, 0, 128])) = Some (Inr (- 2147483648), 1)"
    by (simp add: randomNumber_seed_def with_default_Num cbp rng ps)
  with first show ?thesis
    by (rule conjI)
qed

section \<open>The mask is one bit wider than the range\<close>

text \<open>
  C2. The claim: \<open>mask >= size\<close> and \<open>mask < 2 * (size + 1)\<close> for every \<open>size >= 0\<close>.
  The code at \<open>size = 60\<close>, the example of its own comment ("the mask is 63"): the mask
  starts at 1 and gains a bit in each of the six iterations, so it is 127, which is not
  below \<open>2 * 61\<close>.
\<close>

theorem calculateParameters_mask_too_wide:
  "mask (calculateParameters 60) = 127 \<and> \<not> mask (calculateParameters 60) < 2 * (60 + 1)"
  by (simp add: calculateParameters_eval)

text \<open>
  C3. The claim: \<open>bitsNeeded\<close> is the least count of bits with \<open>2 ^ bitsNeeded - 1 >= size\<close>,
  \<open>bytesNeeded = ceil (bitsNeeded / 8)\<close> and \<open>mask = 2 ^ bitsNeeded - 1\<close>. The code at
  \<open>size = 60\<close> gives six bits and one byte, but the mask 127 where \<open>2 ^ 6 - 1 = 63\<close>; at
  \<open>size = 2 ^ 32\<close> the unsigned shift converts the range to 32 bits first, which leaves 0,
  and the loop stops at one bit where 33 are needed.
\<close>

theorem calculateParameters_not_minimal:
  "calculateParameters 60 = \<lparr>bitsNeeded = 6, bytesNeeded = 1, mask = 127\<rparr>
   \<and> mask (calculateParameters 60) \<noteq> 2 ^ bitsNeeded (calculateParameters 60) - 1
   \<and> calculateParameters 4294967296 = \<lparr>bitsNeeded = 1, bytesNeeded = 1, mask = 3\<rparr>
   \<and> \<not> (4294967296 :: int) \<le> 2 ^ bitsNeeded (calculateParameters 4294967296) - 1"
  by (simp add: calculateParameters_eval)

section \<open>The reduction is signed and 32 bits wide\<close>

text \<open>
  C4. The claim: the reduction of the bytes is the little-endian unsigned integer, in exact
  arithmetic. The code on the four bytes \<open>0, 0, 0, 128\<close>: \<open>128 << 24\<close> is the signed
  32-bit value \<open>- 2 ^ 31\<close>, where the little-endian composition is \<open>2 ^ 31\<close>.
\<close>

theorem reduceBytes_signed:
  "reduceBytes 4 [0, 0, 0, 128] = - 2147483648
   \<and> spec_little_endian [0, 0, 0, 128] = 2147483648"
  by (simp add: reduceBytes_eval)

section \<open>randomSeedNumber\<close>

text \<open>
  What \<open>randomSeedNumber\<close> returns for non-negative safe integers \<open>a < b\<close> and a seed that
  passes the length check and is a buffer, in terms of the code's own reduction and mask:
  one pass, no loop, and an exact sum.
\<close>

lemma randomSeedNumber_value:
  assumes "0 \<le> a" and "a < b" and "b \<le> 9007199254740991"
    and "\<not> length_less (seed_length seed) (bytesNeeded (calculateParameters (b - a)))"
    and "toU8 seed = Inr bytes"
  shows "randomSeedNumber seed (JInt a) (JInt b) =
     Inr (let maskedValue = js_and (reduceBytes (bytesNeeded (calculateParameters (b - a))) bytes)
                              (mask (calculateParameters (b - a)))
          in if maskedValue \<le> b - a then a + maskedValue else - 1)"
  using assms by (simp add: randomSeedNumber_safe maskAndCheck_safe Let_def)

text \<open>
  C5. The claim: \<open>randomSeedNumber\<close> returns the minimum plus the masked candidate when the
  candidate is at most the size, and \<open>-1\<close> when it exceeds the size. With the candidate of
  the specification (\<open>spec_randomSeedNumber\<close>) the code differs. On the seed \<open>243\<close> and the
  range 0 to 60, the example of the code's own comment (\<open>243 & 63 = 51\<close>), the mask of the
  code is 127, the candidate 115 is rejected and \<open>-1\<close> is returned where 51 is claimed. On
  the seed \<open>0, 0, 0, 128\<close> and the range 0 to \<open>2 ^ 30\<close> the signed reduction is accepted
  and \<open>-2147483648\<close> is returned where 0 is claimed. On the seed \<open>255, 255, 255, 255\<close>
  the candidate \<open>-1\<close> of the code is accepted, so the \<open>-1\<close> it returns is the value of an
  accepted draw.
\<close>

theorem randomSeedNumber_candidate_differs:
  "randomSeedNumber (Uint8Array [243]) (Num (Fin 0)) (Num (Fin 60)) = Inr (- 1)
   \<and> spec_randomSeedNumber [243] 0 60 = 51
   \<and> randomSeedNumber (Uint8Array [0, 0, 0, 128]) (Num (Fin 0)) (Num (Fin 1073741824)) =
       Inr (- 2147483648)
   \<and> spec_randomSeedNumber [0, 0, 0, 128] 0 1073741824 = 0
   \<and> maskAndCheck 0 1073741824 (calculateParameters 1073741824) [255, 255, 255, 255] =
       Some (- 1)
   \<and> randomSeedNumber (Uint8Array [255, 255, 255, 255]) (Num (Fin 0)) (Num (Fin 1073741824)) =
       Inr (- 1)"
proof -
  have b60: "bitlen 60 = 6" by (simp add: compute_bitlen)
  have b30: "bitlen 1073741824 = 31" by (simp add: compute_bitlen)
  have r1: "reduceBytes (Suc 0) [243] = 243" by (simp add: reduceBytes_eval)
  have r2: "reduceBytes 4 [0, 0, 0, 128] = - 2147483648" by (simp add: reduceBytes_eval)
  have r3: "reduceBytes 4 [255, 255, 255, 255] = - 1" by (simp add: reduceBytes_eval)
  have m3: "maskAndCheck 0 1073741824 (calculateParameters 1073741824) [255, 255, 255, 255] =
      Some (- 1)"
    by (simp add: calculateParameters_2_30 maskAndCheck_def r3 js_and_def js_add_def
        round_double_exact)
  have c1: "randomSeedNumber (Uint8Array [243]) (Num (Fin 0)) (Num (Fin 60)) = Inr (- 1)"
    using randomSeedNumber_safe [of 0 60 "Uint8Array [243]"]
    by (simp add: calculateParameters_60 length_less_def maskAndCheck_def r1 js_and_def)
  have c2: "randomSeedNumber (Uint8Array [0, 0, 0, 128]) (Num (Fin 0)) (Num (Fin 1073741824)) =
      Inr (- 2147483648)"
    using randomSeedNumber_safe [of 0 1073741824 "Uint8Array [0, 0, 0, 128]"]
    by (simp add: calculateParameters_2_30 length_less_def maskAndCheck_def r2 js_and_def
        js_add_def round_double_exact)
  have c3: "randomSeedNumber (Uint8Array [255, 255, 255, 255]) (Num (Fin 0))
      (Num (Fin 1073741824)) = Inr (- 1)"
    using randomSeedNumber_safe [of 0 1073741824 "Uint8Array [255, 255, 255, 255]"] m3
    by (simp add: calculateParameters_2_30 length_less_def)
  have s1: "spec_randomSeedNumber [243] 0 60 = 51"
    by (simp add: spec_randomSeedNumber_def spec_bytesNeeded_def spec_mask_def
        spec_bitsNeeded_def b60)
  have s2: "spec_randomSeedNumber [0, 0, 0, 128] 0 1073741824 = 0"
    by (simp add: spec_randomSeedNumber_def spec_bytesNeeded_def spec_mask_def
        spec_bitsNeeded_def b30)
  from c1 s1 c2 s2 m3 c3 show ?thesis
    by (intro conjI)
qed

text \<open>
  The length check for a seed that has a \<open>length\<close> property, such as a \<open>Uint8Array\<close>.
\<close>

lemma randomSeedNumber_seed_too_short:
  assumes "0 \<le> a" and "a < b" and "b \<le> 9007199254740991"
    and "seed_length seed = Some l"
    and "l < bytesNeeded (calculateParameters (b - a))"
  shows "randomSeedNumber seed (JInt a) (JInt b) = Inl SeedToShort"
  using assms by (simp add: randomSeedNumber_safe length_less_def Let_def)

text \<open>
  C8. The claim: every seed shorter than \<open>bytesNeeded\<close> fails with the seed-too-short
  error. The code reads the \<open>length\<close> property of the seed before \<open>toU8\<close> normalises it.
  An \<open>ArrayBuffer\<close>, which \<open>toU8\<close> accepts, has no such property, so the comparison is
  false, and the bytes it lacks are read as \<open>undefined\<close>, that is as 0: the empty
  \<open>ArrayBuffer\<close> with the bounds 1 and 6 returns 1, where the empty \<open>Uint8Array\<close> fails.
\<close>

theorem randomSeedNumber_ArrayBuffer_unchecked:
  "randomSeedNumber (ArrayBuffer []) (Num (Fin 1)) (Num (Fin 6)) = Inr 1
   \<and> randomSeedNumber (Uint8Array []) (Num (Fin 1)) (Num (Fin 6)) = Inl SeedToShort"
proof -
  have ps: "calculateParameters 5 = \<lparr>bitsNeeded = 3, bytesNeeded = 1, mask = 15\<rparr>"
    by (simp add: calculateParameters_eval)
  have rv: "reduceBytes (Suc 0) [] = 0"
    by (simp add: reduceBytes_eval)
  have "randomSeedNumber (ArrayBuffer []) (Num (Fin 1)) (Num (Fin 6)) = Inr 1"
    using randomSeedNumber_safe [of 1 6 "ArrayBuffer []"]
    by (simp add: ps length_less_def maskAndCheck_def rv js_and_def js_add_def round_double_exact)
  moreover have "randomSeedNumber (Uint8Array []) (Num (Fin 1)) (Num (Fin 6)) = Inl SeedToShort"
    using randomSeedNumber_seed_too_short [of 1 6 "Uint8Array []" 0] by (simp add: ps)
  ultimately show ?thesis
    by (rule conjI)
qed

text \<open>
  C9. For non-negative safe integers \<open>a < b\<close>, two seeds that pass the length check, are
  buffers and agree on their first \<open>bytesNeeded\<close> bytes give the same result: the same
  integer, or \<open>-1\<close> for both. The bytes after the first \<open>bytesNeeded\<close> are never read.
\<close>

theorem randomSeedNumber_prefix:
  assumes "0 \<le> a" and "a < b" and "b \<le> 9007199254740991"
    and "toU8 seed1 = Inr bytes1" and "toU8 seed2 = Inr bytes2"
    and "\<not> length_less (seed_length seed1) (bytesNeeded (calculateParameters (b - a)))"
    and "\<not> length_less (seed_length seed2) (bytesNeeded (calculateParameters (b - a)))"
    and "take (bytesNeeded (calculateParameters (b - a))) bytes1 =
         take (bytesNeeded (calculateParameters (b - a))) bytes2"
  shows "randomSeedNumber seed1 (JInt a) (JInt b) = randomSeedNumber seed2 (JInt a) (JInt b)"
proof -
  have "reduceBytes (bytesNeeded (calculateParameters (b - a))) bytes1 =
      reduceBytes (bytesNeeded (calculateParameters (b - a))) bytes2"
    using assms(8) by (rule reduceBytes_prefix)
  then show ?thesis
    using assms(1-7) by (simp add: randomSeedNumber_safe maskAndCheck_def Let_def)
qed

theorem randomSeedNumber_prefix_witness:
  "take 1 [51, 1, 2] = take 1 [51, 9 :: byte]
   \<and> randomSeedNumber (Uint8Array [51, 1, 2]) (Num (Fin 0)) (Num (Fin 60)) =
     randomSeedNumber (ArrayBuffer [51, 9]) (Num (Fin 0)) (Num (Fin 60))"
  using randomSeedNumber_prefix [of 0 60 "Uint8Array [51, 1, 2]" "[51, 1, 2]"
      "ArrayBuffer [51, 9]" "[51, 9]"]
  by (simp add: calculateParameters_60 length_less_def)

section \<open>Bounds in the wrong order\<close>

text \<open>
  C6, as claimed: every pair of bounds with \<open>maximum <= minimum\<close> fails with
  \<open>MinHigherThanMax\<close>. The later listing checks each bound before it compares them: the
  bounds 5 and \<open>-1\<close> fail with \<open>MaxNotSafePositiveInteger\<close>, and the equal bounds \<open>-3\<close>
  and \<open>-3\<close> with \<open>MinNotSafePositiveInteger\<close>.
\<close>

theorem equal_bounds_counterexample:
  "randomNumber_seed (Num (Fin 5)) (Num (Fin (- 1))) (Some (\<lambda>k n. Uint8Array [0])) =
     Some (Inl MaxNotSafePositiveInteger, 0)
   \<and> randomSeedNumber (Uint8Array [0]) (Num (Fin 5)) (Num (Fin (- 1))) =
     Inl MaxNotSafePositiveInteger
   \<and> randomNumber_seed (Num (Fin (- 3))) (Num (Fin (- 3))) (Some (\<lambda>k n. Uint8Array [0])) =
     Some (Inl MinNotSafePositiveInteger, 0)
   \<and> randomSeedNumber (Uint8Array [0]) (Num (Fin (- 3))) (Num (Fin (- 3))) =
     Inl MinNotSafePositiveInteger"
proof -
  have "check_bounds_positive (Num (Fin 5)) (Num (Fin (- 1))) = Some MaxNotSafePositiveInteger"
    using check_bounds_positive_int [of 5 "- 1"] by simp
  moreover have "check_bounds_positive (Num (Fin (- 3))) (Num (Fin (- 3))) =
      Some MinNotSafePositiveInteger"
    using check_bounds_positive_int [of "- 3" "- 3"] by simp
  ultimately show ?thesis
    by (simp add: randomNumber_seed_def randomSeedNumber_def with_default_Num)
qed

text \<open>
  C6, amended. For integer bounds with \<open>maximum <= minimum\<close>, equal bounds included,
  \<open>randomNumber\<close> of \<open>src/index.js\<close> fails with \<open>MinHigherThanMax\<close> and has made no call
  of the byte source. In the later listing \<open>randomNumber\<close> and \<open>randomSeedNumber\<close> fail
  with \<open>MinHigherThanMax\<close> when both bounds are non-negative safe integers, and otherwise
  with the error of the first bound that is not one; in every case the result is an error,
  with no call of the byte source and whatever the seed, never a value.
\<close>

theorem equal_bounds_rejected:
  assumes "b \<le> a"
  shows "randomNumber (JInt a) (JInt b) (Some generator) = Some (Inl MinHigherThanMax, 0)
    \<and> (0 \<le> b \<and> a \<le> 9007199254740991 \<longrightarrow>
         randomNumber_seed (JInt a) (JInt b) (Some generator') = Some (Inl MinHigherThanMax, 0)
         \<and> randomSeedNumber seed (JInt a) (JInt b) = Inl MinHigherThanMax)
    \<and> (\<exists>e. e = (if a < 0 \<or> 9007199254740991 < a then MinNotSafePositiveInteger
                 else if b < 0 \<or> 9007199254740991 < b then MaxNotSafePositiveInteger
                 else MinHigherThanMax)
         \<and> randomNumber_seed (JInt a) (JInt b) (Some generator') = Some (Inl e, 0)
         \<and> randomSeedNumber seed (JInt a) (JInt b) = Inl e)"
  using assms
  by (simp add: randomNumber_def randomNumber_seed_def randomSeedNumber_def with_default_Num
      check_bounds_int check_bounds_positive_int)

theorem equal_bounds_rejected_witness:
  "randomNumber (Num (Fin 5)) (Num (Fin 5)) (Some (\<lambda>k n. [0])) = Some (Inl MinHigherThanMax, 0)
   \<and> randomNumber (Num (Fin 6)) (Num (Fin 1)) (Some (\<lambda>k n. [0])) = Some (Inl MinHigherThanMax, 0)
   \<and> randomNumber_seed (Num (Fin 5)) (Num (Fin 5)) (Some (\<lambda>k n. Uint8Array [0])) =
       Some (Inl MinHigherThanMax, 0)
   \<and> randomSeedNumber (Uint8Array [0]) (Num (Fin 5)) (Num (Fin 5)) = Inl MinHigherThanMax
   \<and> randomNumber (Num (Fin (- 3))) (Num (Fin (- 3))) (Some (\<lambda>k n. [0])) =
       Some (Inl MinHigherThanMax, 0)
   \<and> randomSeedNumber (Uint8Array [0]) (Num (Fin (- 3))) (Num (Fin (- 3))) =
       Inl MinNotSafePositiveInteger"
  using equal_bounds_rejected [of 5 5 "\<lambda>k n. [0]" "\<lambda>k n. Uint8Array [0]" "Uint8Array [0]"]
    equal_bounds_rejected [of 1 6 "\<lambda>k n. [0]" "\<lambda>k n. Uint8Array [0]" "Uint8Array [0]"]
    equal_bounds_rejected [of "- 3" "- 3" "\<lambda>k n. [0]" "\<lambda>k n. Uint8Array [0]" "Uint8Array [0]"]
  by simp

section \<open>The sampler of the later listing never returns the sentinel\<close>



section \<open>Validation of the bounds\<close>

text \<open>
  C7, as claimed: every bound that is not an exact integer in the safe range fails with
  \<open>MinNotInteger\<close>, \<open>MaxNotInteger\<close> or the safe-integer error, and every safe integer,
  negative ones included, passes. In \<open>src/index.js\<close> the order of the bounds is checked
  before the safe range, so the minimum \<open>2 ^ 53\<close> with the maximum 0 fails with
  \<open>MinHigherThanMax\<close>; and the later listing rejects the negative minimum \<open>-1\<close>, in
  \<open>randomNumber\<close> and in \<open>randomSeedNumber\<close>, with \<open>MinNotSafePositiveInteger\<close>.
\<close>

theorem bound_validation_counterexample:
  "randomNumber (Num (Fin 9007199254740992)) (Num (Fin 0)) (Some (\<lambda>k n. [0])) =
     Some (Inl MinHigherThanMax, 0)
   \<and> randomNumber_seed (Num (Fin (- 1))) (Num (Fin 5)) (Some (\<lambda>k n. Uint8Array [0])) =
     Some (Inl MinNotSafePositiveInteger, 0)
   \<and> randomSeedNumber (Uint8Array [0]) (Num (Fin (- 1))) (Num (Fin 5)) =
     Inl MinNotSafePositiveInteger"
proof -
  have "check_bounds (Num (Fin 9007199254740992)) (Num (Fin 0)) = Some MinHigherThanMax"
    using check_bounds_int [of 9007199254740992 0] by simp
  moreover have "check_bounds_positive (Num (Fin (- 1))) (Num (Fin 5)) =
      Some MinNotSafePositiveInteger"
    using check_bounds_positive_int [of "- 1" 5] by simp
  ultimately show ?thesis
    by (simp add: randomNumber_def randomNumber_seed_def randomSeedNumber_def with_default_Num)
qed

text \<open>
  C7, amended. In \<open>src/index.js\<close>, with a function as generator and numbers as bounds: a
  bound that is not an integer fails with \<open>MinNotInteger\<close>, or \<open>MaxNotInteger\<close> when the
  minimum is an integer; integer bounds with \<open>maximum > minimum\<close> of which one is outside
  the safe range fail with the safe-integer error of that bound; both with no call of the
  byte source; and safe integers with \<open>maximum > minimum\<close>, negative ones included, pass
  the checks. In the later listing a bound that is not a non-negative safe integer fails with
  \<open>MinNotSafePositiveInteger\<close>, or \<open>MaxNotSafePositiveInteger\<close> when the minimum is one,
  with no call of the byte source, and non-negative safe integers with \<open>maximum > minimum\<close>
  pass the checks.
\<close>

theorem bound_validation:
  "(\<not> (is_integer x \<and> is_integer y) \<longrightarrow>
      randomNumber (Num x) (Num y) (Some generator) =
        Some (Inl (if is_integer x then MaxNotInteger else MinNotInteger), 0))
   \<and> (a < b \<and> \<not> (in_safe_range a \<and> in_safe_range b) \<longrightarrow>
      randomNumber (JInt a) (JInt b) (Some generator) =
        Some (Inl (if in_safe_range a then MaximumNotSafe else MinimumNotSafe), 0))
   \<and> (a < b \<and> in_safe_range a \<and> in_safe_range b \<longrightarrow> check_bounds (JInt a) (JInt b) = None)
   \<and> (\<not> (nonneg_safe_integer x \<and> nonneg_safe_integer y) \<longrightarrow>
      randomNumber_seed (Num x) (Num y) (Some generator') =
        Some (Inl (if nonneg_safe_integer x then MaxNotSafePositiveInteger
                   else MinNotSafePositiveInteger), 0)
      \<and> randomSeedNumber seed (Num x) (Num y) =
        Inl (if nonneg_safe_integer x then MaxNotSafePositiveInteger
             else MinNotSafePositiveInteger))
   \<and> (0 \<le> a \<and> a < b \<and> b \<le> 9007199254740991 \<longrightarrow>
      check_bounds_positive (JInt a) (JInt b) = None)"
proof (intro conjI impI)
  assume "\<not> (is_integer x \<and> is_integer y)"
  then show "randomNumber (Num x) (Num y) (Some generator) =
      Some (Inl (if is_integer x then MaxNotInteger else MinNotInteger), 0)"
    by (auto simp: randomNumber_def with_default_Num check_bounds_num)
next
  assume "a < b \<and> \<not> (in_safe_range a \<and> in_safe_range b)"
  then show "randomNumber (JInt a) (JInt b) (Some generator) =
      Some (Inl (if in_safe_range a then MaximumNotSafe else MinimumNotSafe), 0)"
    by (auto simp: randomNumber_def with_default_Num check_bounds_int in_safe_range_def)
next
  assume "a < b \<and> in_safe_range a \<and> in_safe_range b"
  then show "check_bounds (JInt a) (JInt b) = None"
    by (auto simp: check_bounds_int in_safe_range_def)
next
  assume bad: "\<not> (nonneg_safe_integer x \<and> nonneg_safe_integer y)"
  show "randomNumber_seed (Num x) (Num y) (Some generator') =
      Some (Inl (if nonneg_safe_integer x then MaxNotSafePositiveInteger
                 else MinNotSafePositiveInteger), 0)"
    by (simp add: randomNumber_seed_def with_default_Num check_bounds_positive_num [OF bad])
  show "randomSeedNumber seed (Num x) (Num y) =
      Inl (if nonneg_safe_integer x then MaxNotSafePositiveInteger
           else MinNotSafePositiveInteger)"
    by (simp add: randomSeedNumber_def with_default_Num check_bounds_positive_num [OF bad])
next
  assume "0 \<le> a \<and> a < b \<and> b \<le> 9007199254740991"
  then show "check_bounds_positive (JInt a) (JInt b) = None"
    by (auto simp: check_bounds_positive_int)
qed

theorem bound_validation_witness:
  "randomNumber (Num (Fin (3 / 2))) (Num (Fin 6)) (Some (\<lambda>k n. [0])) =
     Some (Inl MinNotInteger, 0)
   \<and> randomNumber (Num (Fin 1)) (Num NaN) (Some (\<lambda>k n. [0])) = Some (Inl MaxNotInteger, 0)
   \<and> randomNumber (Num (Fin 0)) (Num (Fin 9007199254740992)) (Some (\<lambda>k n. [0])) =
     Some (Inl MaximumNotSafe, 0)
   \<and> check_bounds (Num (Fin (- 5))) (Num (Fin 5)) = None
   \<and> randomNumber_seed (Num (Fin (- 5))) (Num (Fin 5)) (Some (\<lambda>k n. Uint8Array [0])) =
     Some (Inl MinNotSafePositiveInteger, 0)
   \<and> randomSeedNumber (Uint8Array [0]) (Num (Fin 1)) (Num (Fin (13 / 2))) =
     Inl MaxNotSafePositiveInteger
   \<and> check_bounds_positive (Num (Fin 1)) (Num (Fin 6)) = None"
proof -
  have f1: "\<lfloor>3 / 2 :: rat\<rfloor> = 1" by (simp add: floor_eq_iff)
  have f2: "\<lfloor>13 / 2 :: rat\<rfloor> = 6" by (simp add: floor_eq_iff)
  have n1: "\<not> is_integer (Fin (3 / 2))" by (simp add: is_integer_def f1)
  have n2: "is_integer (Fin 1) \<and> \<not> is_integer NaN"
    using is_integer_of_int [of 1] by (simp add: is_integer_def)
  have n3: "\<not> nonneg_safe_integer (Fin (- 5))" by (simp add: nonneg_safe_integer_def)
  have n4: "nonneg_safe_integer (Fin 1) \<and> \<not> nonneg_safe_integer (Fin (13 / 2))"
    by (simp add: nonneg_safe_integer_def f2)
  have c1: "randomNumber (Num (Fin (3 / 2))) (Num (Fin 6)) (Some (\<lambda>k n. [0])) =
      Some (Inl MinNotInteger, 0)"
    using bound_validation [of "Fin (3 / 2)" "Fin 6" "\<lambda>k n. [0]" 0 0] n1 by simp
  have c2: "randomNumber (Num (Fin 1)) (Num NaN) (Some (\<lambda>k n. [0])) = Some (Inl MaxNotInteger, 0)"
    using bound_validation [of "Fin 1" NaN "\<lambda>k n. [0]" 0 0] n2 by simp
  have c3: "randomNumber (Num (Fin 0)) (Num (Fin 9007199254740992)) (Some (\<lambda>k n. [0])) =
      Some (Inl MaximumNotSafe, 0)"
    using bound_validation [of "Fin 0" "Fin 0" "\<lambda>k n. [0]" 0 9007199254740992]
    by (simp add: in_safe_range_def)
  have c4: "check_bounds (Num (Fin (- 5))) (Num (Fin 5)) = None"
    using bound_validation [of "Fin 0" "Fin 0" "\<lambda>k n. [0]" "- 5" 5]
    by (simp add: in_safe_range_def)
  have c5: "randomNumber_seed (Num (Fin (- 5))) (Num (Fin 5)) (Some (\<lambda>k n. Uint8Array [0])) =
      Some (Inl MinNotSafePositiveInteger, 0)"
    using bound_validation [of "Fin (- 5)" "Fin 5" _ 0 0 "\<lambda>k n. Uint8Array [0]"] n3 by simp
  have c6: "randomSeedNumber (Uint8Array [0]) (Num (Fin 1)) (Num (Fin (13 / 2))) =
      Inl MaxNotSafePositiveInteger"
    using bound_validation [of "Fin 1" "Fin (13 / 2)" _ 0 0 _ "Uint8Array [0]"] n4 by simp
  have c7: "check_bounds_positive (Num (Fin 1)) (Num (Fin 6)) = None"
    using bound_validation [of "Fin 0" "Fin 0" "\<lambda>k n. [0]" 1 6] by simp
  from c1 c2 c3 c4 c5 c6 c7 show ?thesis
    by (intro conjI)
qed

end
